theory Spec2Isabelle
  imports Complex_Main "HOL-Library.Char_ord" "HOL-Library.List_Lexorder"
begin

section \<open>Item-based movie recommender: data model\<close>

text \<open>
  The two scripts \<^verbatim>\<open>movie_recommender.py\<close> and \<^verbatim>\<open>movie_recommender_app.py\<close> build an
  item-item cosine similarity table from rating observations (\<^verbatim>\<open>load_data\<close>) and answer
  top-N queries against it (\<^verbatim>\<open>recommend_movie\<close>).

  Ratings and similarity scores are modelled as real numbers: arithmetic is exact and the
  rounding of IEEE doubles is not part of the model. A missing cell (pandas' NaN) is
  \<open>None\<close>. Titles are byte strings, which is what the latin-1 decoding of \<^verbatim>\<open>u.item\<close>
  yields; their order is the lexicographic order of the code points, as in Python.
  The two \<^verbatim>\<open>read_csv\<close> calls are input: the parsed tables are the parameters of
  \<open>load_data\<close>.
\<close>

text \<open>
  \<open>KeyError\<close> and \<open>ValueError\<close> are the exceptions that the calls of the scripts raise.
  \<open>NonFinite\<close> is not an exception: a division by zero gives inf or NaN in numpy, values
  that the real numbers do not have, and a computation in which that happens ends in the
  outcome \<open>NonFinite\<close>. A result \<open>Inr\<close> therefore says that every division of the
  computation had a divisor other than zero, and that the table holds finite numbers only.
\<close>

datatype error = KeyError | ValueError | NonFinite

text \<open>A row of \<^verbatim>\<open>u.data\<close>: names=['user_id', 'movie_id', 'rating', 'timestamp'].\<close>

record rating_row =
  r_user_id :: int
  r_movie_id :: int
  r_rating :: real
  r_timestamp :: int

text \<open>A row of \<^verbatim>\<open>u.item\<close>: usecols=[0, 1], names=['movie_id', 'title'].\<close>

record movie_row =
  m_movie_id :: int
  m_title :: string

text \<open>A row of the merged table \<^verbatim>\<open>data\<close>.\<close>

record data_row =
  user_id :: int
  movie_id :: int
  rating :: real
  timestamp :: int
  title :: string

text \<open>
  A pandas DataFrame: row labels, column labels and the cells, row by row. A Series is
  the list of its (label, value) pairs in order.
\<close>

record ('i, 'c, 'v) frame =
  index :: "'i list"
  columns :: "'c list"
  cells :: "'v list list"

type_synonym ('i, 'v) series = "('i \<times> 'v) list"

section \<open>The pandas and scikit-learn operations the scripts call\<close>

text \<open>
  \<^verbatim>\<open>pd.merge(ratings, movies, on='movie_id')\<close>: the default inner join. Every rating row
  is paired with every movie row of the same \<^verbatim>\<open>movie_id\<close>, in the order of the left table;
  a rating whose movie is unknown is dropped.
\<close>

definition merge :: "rating_row list \<Rightarrow> movie_row list \<Rightarrow> data_row list" where
  "merge ratings movies =
     concat (map (\<lambda>r. map (\<lambda>m. \<lparr>user_id = r_user_id r, movie_id = r_movie_id r,
                                  rating = r_rating r, timestamp = r_timestamp r,
                                  title = m_title m\<rparr>)
                          (filter (\<lambda>m. m_movie_id m = r_movie_id r) movies))
                 ratings)"

text \<open>
  \<^verbatim>\<open>data.pivot_table(index='user_id', columns='title', values='rating')\<close>: the rows of
  \<^verbatim>\<open>data\<close> are grouped by (user_id, title) and every group is aggregated with the default
  \<^verbatim>\<open>aggfunc='mean'\<close>. Row and column labels are the distinct keys in ascending order; a
  pair without observation is NaN. (The default \<^verbatim>\<open>dropna=True\<close> removes columns that are
  NaN throughout; with real ratings every column holds at least one group, so none is.)
\<close>

definition group_ratings :: "data_row list \<Rightarrow> int \<Rightarrow> string \<Rightarrow> real list" where
  "group_ratings data u t = map rating (filter (\<lambda>d. user_id d = u \<and> title d = t) data)"

definition mean :: "real list \<Rightarrow> real" where
  "mean xs = sum_list xs / real (length xs)"

definition pivot_table :: "data_row list \<Rightarrow> (int, string, real option) frame" where
  "pivot_table data =
     (let idx = sort (remdups (map user_id data));
          cols = sort (remdups (map title data))
      in \<lparr>index = idx, columns = cols,
          cells = map (\<lambda>u. map (\<lambda>t. let g = group_ratings data u t
                                      in if g = [] then None else Some (mean g)) cols) idx\<rparr>)"

text \<open>\<^verbatim>\<open>df.fillna(0)\<close>: every NaN cell becomes the given value.\<close>

definition fillna :: "('i, 'c, real option) frame \<Rightarrow> real \<Rightarrow> ('i, 'c, real) frame" where
  "fillna df v =
     \<lparr>index = index df, columns = columns df,
      cells = map (map (\<lambda>c. case c of None \<Rightarrow> v | Some x \<Rightarrow> x)) (cells df)\<rparr>"

text \<open>\<^verbatim>\<open>df.T\<close>: rows and columns change places; the shape (rows, columns) is swapped.\<close>

definition T :: "('i, 'c, 'v) frame \<Rightarrow> ('c, 'i, 'v) frame" where
  "T df = \<lparr>index = columns df, columns = index df,
           cells = map (\<lambda>j. map (\<lambda>row. row ! j) (cells df)) [0..<length (columns df)]\<rparr>"

text \<open>
  \<^verbatim>\<open>sklearn.metrics.pairwise.cosine_similarity(X)\<close>. The input check
  (\<^verbatim>\<open>check_pairwise_arrays\<close>, \<^verbatim>\<open>check_array\<close>) raises ValueError for an array with fewer
  than one sample or fewer than one feature. Then every row is scaled to unit L2 norm by
  \<^verbatim>\<open>normalize\<close>, which passes the norms through \<^verbatim>\<open>_handle_zeros_in_scale\<close> (a norm of zero
  is replaced by one) before dividing, and the result is the matrix product of the
  normalised rows with their transpose. (Recent releases of the library also replace a
  norm below ten machine epsilons; that threshold belongs to the rounding, which is not
  modelled.)

  The division is numpy's: \<open>np_divide\<close> has no value for a divisor of zero, where numpy
  yields inf or NaN. A row is normalised only if each of its quotients has a value, and
  the similarity is computed only if every row is; otherwise the outcome is
  \<open>NonFinite\<close>. Without the replacement of zero norms a row of zeros would have none.
\<close>

definition np_divide :: "real \<Rightarrow> real \<Rightarrow> real option" where
  "np_divide x y = (if y = 0 then None else Some (x / y))"

definition row_norm :: "real list \<Rightarrow> real" where
  "row_norm xs = sqrt (sum_list (map (\<lambda>x. x * x) xs))"

definition handle_zeros_in_scale :: "real \<Rightarrow> real" where
  "handle_zeros_in_scale s = (if s = 0 then 1 else s)"

definition normalize_row :: "real list \<Rightarrow> real list option" where
  "normalize_row xs = those (map (\<lambda>x. np_divide x (handle_zeros_in_scale (row_norm xs))) xs)"

definition normalize :: "real list list \<Rightarrow> real list list option" where
  "normalize X = those (map normalize_row X)"

definition dot :: "real list \<Rightarrow> real list \<Rightarrow> real" where
  "dot xs ys = sum_list (map (\<lambda>(x, y). x * y) (zip xs ys))"

definition cosine_similarity :: "('i, 'c, real) frame \<Rightarrow> error + real list list" where
  "cosine_similarity X =
     (if length (index X) < 1 \<or> length (columns X) < 1 then Inl ValueError
      else (case normalize (cells X) of
              None \<Rightarrow> Inl NonFinite
            | Some X_normalized \<Rightarrow>
                Inr (map (\<lambda>a. map (\<lambda>b. dot a b) X_normalized) X_normalized)))"

text \<open>
  \<^verbatim>\<open>Index.get_loc\<close>, the position of a label, and \<^verbatim>\<open>df[name]\<close>, the column of that
  label as a Series over the row labels; an unknown label raises KeyError.
\<close>

fun get_loc :: "'a list \<Rightarrow> 'a \<Rightarrow> nat option" where
  "get_loc [] x = None"
| "get_loc (y # ys) x = (if x = y then Some 0 else map_option Suc (get_loc ys x))"

definition getitem :: "('i, 'c, 'v) frame \<Rightarrow> 'c \<Rightarrow> error + ('i, 'v) series" where
  "getitem df name =
     (case get_loc (columns df) name of
        None \<Rightarrow> Inl KeyError
      | Some j \<Rightarrow> Inr (zip (index df) (map (\<lambda>row. row ! j) (cells df))))"

text \<open>\<^verbatim>\<open>df.loc[a, b]\<close>: the cell at row label a and column label b.\<close>

definition loc :: "('i, 'c, 'v) frame \<Rightarrow> 'i \<Rightarrow> 'c \<Rightarrow> 'v option" where
  "loc df a b =
     (case get_loc (index df) a of
        None \<Rightarrow> None
      | Some i \<Rightarrow> (case get_loc (columns df) b of
                     None \<Rightarrow> None
                   | Some j \<Rightarrow> Some (cells df ! i ! j)))"

text \<open>
  \<^verbatim>\<open>Series.sort_values(ascending=False)\<close>. pandas sorts in descending order by reversing
  the values, sorting them in ascending order and reversing the outcome
  (\<^verbatim>\<open>nargsort\<close>), so that entries of equal value keep the order they had in the Series
  when the underlying sort keeps it.
\<close>

definition sort_values_desc :: "('i, real) series \<Rightarrow> ('i, real) series" where
  "sort_values_desc s = rev (sort_key snd (rev s))"

text \<open>
  \<^verbatim>\<open>s.iloc[start:stop]\<close> with Python's slice rules: a negative bound counts from the end
  and both bounds are clipped to the length.
\<close>

definition slice_bound :: "int \<Rightarrow> nat \<Rightarrow> nat" where
  "slice_bound i len = (if i < 0 then nat (max 0 (int len + i)) else min (nat i) len)"

definition iloc_slice :: "int \<Rightarrow> int \<Rightarrow> 'a list \<Rightarrow> 'a list" where
  "iloc_slice start stop xs =
     (let a = slice_bound start (length xs); b = slice_bound stop (length xs)
      in take (b - a) (drop a xs))"

section \<open>The functions of the scripts\<close>

text \<open>
  The local variables \<^verbatim>\<open>user_movie_matrix\<close> and \<^verbatim>\<open>user_movie_matrix_filled\<close> of
  \<^verbatim>\<open>load_data\<close>, as functions of its input, for use in statements about the rating matrix.
\<close>

definition user_movie_matrix :: "rating_row list \<Rightarrow> movie_row list \<Rightarrow> (int, string, real option) frame" where
  "user_movie_matrix ratings movies = pivot_table (merge ratings movies)"

definition user_movie_matrix_filled :: "rating_row list \<Rightarrow> movie_row list \<Rightarrow> (int, string, real) frame" where
  "user_movie_matrix_filled ratings movies = fillna (user_movie_matrix ratings movies) 0"

text \<open>
  \<^verbatim>\<open>load_data\<close> of \<^verbatim>\<open>movie_recommender.py\<close>: merge, pivot, fill, cosine similarity of the
  item rows, and the result labelled with the titles on both axes.
\<close>

definition load_data :: "rating_row list \<Rightarrow> movie_row list \<Rightarrow> error + (string, string, real) frame" where
  "load_data ratings movies =
     (let data = merge ratings movies;
          user_movie_matrix = pivot_table data;
          user_movie_matrix_filled = fillna user_movie_matrix 0
      in case cosine_similarity (T user_movie_matrix_filled) of
           Inl e \<Rightarrow> Inl e
         | Inr movie_similarity \<Rightarrow>
             Inr \<lparr>index = columns user_movie_matrix, columns = columns user_movie_matrix,
                  cells = movie_similarity\<rparr>)"

text \<open>
  \<^verbatim>\<open>load_data\<close> of \<^verbatim>\<open>movie_recommender_app.py\<close>: the same computation, returned together
  with the merged table. Its handler catches FileNotFoundError only, which belongs to
  the reading of the files.
\<close>

definition load_data_app ::
  "rating_row list \<Rightarrow> movie_row list \<Rightarrow> error + ((string, string, real) frame \<times> data_row list)" where
  "load_data_app ratings movies =
     (let data = merge ratings movies;
          user_movie_matrix = pivot_table data;
          user_movie_matrix_filled = fillna user_movie_matrix 0
      in case cosine_similarity (T user_movie_matrix_filled) of
           Inl e \<Rightarrow> Inl e
         | Inr movie_similarity \<Rightarrow>
             Inr (\<lparr>index = columns user_movie_matrix, columns = columns user_movie_matrix,
                   cells = movie_similarity\<rparr>, data))"

text \<open>
  \<^verbatim>\<open>recommend_movie\<close> of \<^verbatim>\<open>movie_recommender.py\<close>: the column of the title, sorted by
  score in descending order, without its first entry, cut after
  \<^verbatim>\<open>num_recommendations\<close> entries; the labels are returned as a list.
\<close>

definition recommend_movie ::
  "(string, string, real) frame \<Rightarrow> string \<Rightarrow> int \<Rightarrow> error + string list" where
  "recommend_movie movie_similarity_df movie_name num_recommendations =
     (case getitem movie_similarity_df movie_name of
        Inl e \<Rightarrow> Inl e
      | Inr col \<Rightarrow>
          (let similar_movies = sort_values_desc col
           in Inr (map fst (iloc_slice 1 (num_recommendations + 1) similar_movies))))"

text \<open>
  \<^verbatim>\<open>recommend_movie\<close> of \<^verbatim>\<open>movie_recommender_app.py\<close>: a title that is not a column gives
  the empty Python list; otherwise the slice of the sorted Series itself is returned,
  labels with scores.
\<close>

datatype app_result = PyList "string list" | Series "(string, real) series"

definition recommend_movie_app ::
  "(string, string, real) frame \<Rightarrow> string \<Rightarrow> int \<Rightarrow> error + app_result" where
  "recommend_movie_app movie_similarity_df movie_name num_recommendations =
     (if movie_name \<notin> set (columns movie_similarity_df) then Inr (PyList [])
      else (case getitem movie_similarity_df movie_name of
              Inl e \<Rightarrow> Inl e
            | Inr col \<Rightarrow>
                (let similar_movies = sort_values_desc col
                 in Inr (Series (iloc_slice 1 (num_recommendations + 1) similar_movies)))))"

section \<open>Notions used in the statements and proofs\<close>

text \<open>
  A frame whose cell at labels (a, b) is \<open>f a b\<close>. Every frame that \<open>load_data\<close> builds
  has this form, which is how the lemmas below read cells by label.
\<close>

definition tabulate :: "'i list \<Rightarrow> 'c list \<Rightarrow> ('i \<Rightarrow> 'c \<Rightarrow> 'v) \<Rightarrow> ('i, 'c, 'v) frame" where
  "tabulate idx cols f = \<lparr>index = idx, columns = cols, cells = map (\<lambda>a. map (f a) cols) idx\<rparr>"

text \<open>The row and column labels of the pivot, and the filled cell of a (user, title) pair.\<close>

definition users :: "data_row list \<Rightarrow> int list" where
  "users data = sort (remdups (map user_id data))"

definition titles :: "data_row list \<Rightarrow> string list" where
  "titles data = sort (remdups (map title data))"

definition rating_cell :: "data_row list \<Rightarrow> int \<Rightarrow> string \<Rightarrow> real" where
  "rating_cell data u t = (if group_ratings data u t = [] then 0 else mean (group_ratings data u t))"

text \<open>
  The rating vector of a title over all users, the quotients of a row by its guarded
  norm, and the cosine score of two titles.
\<close>

definition item_vector :: "data_row list \<Rightarrow> string \<Rightarrow> real list" where
  "item_vector data t = map (\<lambda>u. rating_cell data u t) (users data)"

definition unit_row :: "real list \<Rightarrow> real list" where
  "unit_row xs = map (\<lambda>x. x / handle_zeros_in_scale (row_norm xs)) xs"

definition sim :: "data_row list \<Rightarrow> string \<Rightarrow> string \<Rightarrow> real" where
  "sim data a b = dot (unit_row (item_vector data a)) (unit_row (item_vector data b))"

text \<open>
  The shape of a similarity table: the same distinct titles on both axes and one cell
  for every pair of them.
\<close>

definition similarity_matrix :: "(string, string, real) frame \<Rightarrow> bool" where
  "similarity_matrix df \<longleftrightarrow>
     index df = columns df \<and> distinct (columns df) \<and> length (cells df) = length (index df)
     \<and> (\<forall>row\<in>set (cells df). length row = length (columns df))"

subsection \<open>Concrete datasets\<close>

text \<open>
  Three users and three items: user 1 rates A=5, B=3, C=0; user 2 rates A=4, B=0, C=0;
  user 3 rates A=0, B=0, C=5.
\<close>

definition scenario_ratings :: "rating_row list" where
  "scenario_ratings =
    [\<lparr>r_user_id = 1, r_movie_id = 1, r_rating = 5, r_timestamp = 0\<rparr>,
     \<lparr>r_user_id = 1, r_movie_id = 2, r_rating = 3, r_timestamp = 0\<rparr>,
     \<lparr>r_user_id = 1, r_movie_id = 3, r_rating = 0, r_timestamp = 0\<rparr>,
     \<lparr>r_user_id = 2, r_movie_id = 1, r_rating = 4, r_timestamp = 0\<rparr>,
     \<lparr>r_user_id = 2, r_movie_id = 2, r_rating = 0, r_timestamp = 0\<rparr>,
     \<lparr>r_user_id = 2, r_movie_id = 3, r_rating = 0, r_timestamp = 0\<rparr>,
     \<lparr>r_user_id = 3, r_movie_id = 1, r_rating = 0, r_timestamp = 0\<rparr>,
     \<lparr>r_user_id = 3, r_movie_id = 2, r_rating = 0, r_timestamp = 0\<rparr>,
     \<lparr>r_user_id = 3, r_movie_id = 3, r_rating = 5, r_timestamp = 0\<rparr>]"

text \<open>The same scenario with the zero ratings left out, as pairs without observation.\<close>

definition scenario_ratings_observed :: "rating_row list" where
  "scenario_ratings_observed =
    [\<lparr>r_user_id = 1, r_movie_id = 1, r_rating = 5, r_timestamp = 0\<rparr>,
     \<lparr>r_user_id = 1, r_movie_id = 2, r_rating = 3, r_timestamp = 0\<rparr>,
     \<lparr>r_user_id = 2, r_movie_id = 1, r_rating = 4, r_timestamp = 0\<rparr>,
     \<lparr>r_user_id = 3, r_movie_id = 3, r_rating = 5, r_timestamp = 0\<rparr>]"

definition scenario_movies :: "movie_row list" where
  "scenario_movies =
    [\<lparr>m_movie_id = 1, m_title = ''A''\<rparr>, \<lparr>m_movie_id = 2, m_title = ''B''\<rparr>,
     \<lparr>m_movie_id = 3, m_title = ''C''\<rparr>]"

definition scenario_similarity :: "(string, string, real) frame" where
  "scenario_similarity =
    \<lparr>index = [''A'', ''B'', ''C''], columns = [''A'', ''B'', ''C''],
     cells = [[1, 5 / sqrt 41, 0], [5 / sqrt 41, 1, 0], [0, 0, 1]]\<rparr>"

text \<open>One user who gives two movies the same rating: the two item vectors coincide.\<close>

definition tie_ratings :: "rating_row list" where
  "tie_ratings =
    [\<lparr>r_user_id = 1, r_movie_id = 1, r_rating = 1, r_timestamp = 0\<rparr>,
     \<lparr>r_user_id = 1, r_movie_id = 2, r_rating = 1, r_timestamp = 0\<rparr>]"

definition tie_movies :: "movie_row list" where
  "tie_movies = [\<lparr>m_movie_id = 1, m_title = ''A''\<rparr>, \<lparr>m_movie_id = 2, m_title = ''B''\<rparr>]"

definition tie_similarity :: "(string, string, real) frame" where
  "tie_similarity = \<lparr>index = [''A'', ''B''], columns = [''A'', ''B''], cells = [[1, 1], [1, 1]]\<rparr>"



text \<open>User 1 rates movie 1 twice (2 and 4); user 2 rates movie 2 once.\<close>

definition duplicate_ratings :: "rating_row list" where
  "duplicate_ratings =
    [\<lparr>r_user_id = 1, r_movie_id = 1, r_rating = 2, r_timestamp = 0\<rparr>,
     \<lparr>r_user_id = 1, r_movie_id = 1, r_rating = 4, r_timestamp = 1\<rparr>,
     \<lparr>r_user_id = 2, r_movie_id = 2, r_rating = 5, r_timestamp = 2\<rparr>]"

text \<open>Two movie ids that carry the same title.\<close>

definition same_title_movies :: "movie_row list" where
  "same_title_movies = [\<lparr>m_movie_id = 1, m_title = ''A''\<rparr>, \<lparr>m_movie_id = 2, m_title = ''A''\<rparr>]"

section \<open>Labels and cells\<close>

lemma get_loc_SomeD: "get_loc xs x = Some i \<Longrightarrow> i < length xs \<and> xs ! i = x"
  by (induction xs arbitrary: i) (auto split: if_splits)

lemma get_loc_None_iff: "get_loc xs x = None \<longleftrightarrow> x \<notin> set xs"
  by (induction xs) auto

lemma get_loc_mem: "x \<in> set xs \<Longrightarrow> \<exists>i. get_loc xs x = Some i"
  using get_loc_None_iff [of xs x] by (cases "get_loc xs x") auto

lemma index_tabulate [simp]: "index (tabulate idx cols f) = idx"
  by (simp add: tabulate_def)

lemma columns_tabulate [simp]: "columns (tabulate idx cols f) = cols"
  by (simp add: tabulate_def)

lemma loc_tabulate:
  "loc (tabulate idx cols f) a b = (if a \<in> set idx \<and> b \<in> set cols then Some (f a b) else None)"
proof (cases "get_loc idx a")
  case None
  moreover from None have "a \<notin> set idx" by (simp add: get_loc_None_iff)
  ultimately show ?thesis by (simp add: loc_def tabulate_def)
next
  case (Some i)
  note i = get_loc_SomeD [OF Some]
  show ?thesis
  proof (cases "get_loc cols b")
    case None
    moreover from None have "b \<notin> set cols" by (simp add: get_loc_None_iff)
    ultimately show ?thesis using Some by (simp add: loc_def tabulate_def)
  next
    case (Some j)
    note j = get_loc_SomeD [OF Some]
    from i j have "a \<in> set idx" "b \<in> set cols" by auto
    then show ?thesis using i j Some \<open>get_loc idx a = Some i\<close>
      by (simp add: loc_def tabulate_def)
  qed
qed


lemma T_tabulate: "T (tabulate idx cols f) = tabulate cols idx (\<lambda>b a. f a b)"
proof -
  have "map (\<lambda>j. map (\<lambda>row. row ! j) (map (\<lambda>a. map (f a) cols) idx)) [0..<length cols]
        = map (\<lambda>j. map (\<lambda>a. f a (cols ! j)) idx) [0..<length cols]"
    by (rule map_cong) (auto simp: comp_def)
  also have "\<dots> = map (\<lambda>b. map (\<lambda>a. f a b) idx) (map (nth cols) [0..<length cols])"
    by (simp add: comp_def)
  also have "\<dots> = map (\<lambda>b. map (\<lambda>a. f a b) idx) cols"
    by (simp only: map_nth)
  finally show ?thesis by (simp add: T_def tabulate_def)
qed

lemma getitem_known:
  assumes "name \<in> set (columns df)"
  shows "\<exists>j. getitem df name = Inr (zip (index df) (map (\<lambda>row. row ! j) (cells df)))"
  using get_loc_mem [OF assms] by (auto simp: getitem_def)

lemma getitem_unknown:
  assumes "name \<notin> set (columns df)"
  shows "getitem df name = Inl KeyError"
  using assms by (simp add: getitem_def get_loc_None_iff [THEN iffD2])

section \<open>The pipeline of \<open>load_data\<close>, step by step\<close>

lemma set_users [simp]: "set (users data) = user_id ` set data"
  by (simp add: users_def)

lemma set_titles [simp]: "set (titles data) = title ` set data"
  by (simp add: titles_def)

lemma distinct_titles [simp]: "distinct (titles data)"
  by (simp add: titles_def)

lemma distinct_users [simp]: "distinct (users data)"
  by (simp add: users_def)

lemma users_Nil_iff [simp]: "users data = [] \<longleftrightarrow> data = []"
  using set_users [of data] by (metis image_is_empty set_empty)

lemma titles_Nil_iff [simp]: "titles data = [] \<longleftrightarrow> data = []"
  using set_titles [of data] by (metis image_is_empty set_empty)

lemma pivot_table_tabulate:
  "pivot_table data = tabulate (users data) (titles data)
     (\<lambda>u t. if group_ratings data u t = [] then None else Some (mean (group_ratings data u t)))"
  by (simp add: pivot_table_def tabulate_def users_def titles_def Let_def)

lemma fillna_tabulate:
  "fillna (tabulate idx cols f) v = tabulate idx cols (\<lambda>a b. case f a b of None \<Rightarrow> v | Some x \<Rightarrow> x)"
  by (simp add: fillna_def tabulate_def comp_def)

lemma filled_tabulate:
  "fillna (pivot_table data) 0 = tabulate (users data) (titles data) (rating_cell data)"
proof -
  have "(\<lambda>u t. case (if group_ratings data u t = [] then None else Some (mean (group_ratings data u t)))
                 of None \<Rightarrow> 0 | Some x \<Rightarrow> x) = rating_cell data"
    by (intro ext) (simp add: rating_cell_def)
  then show ?thesis by (simp add: pivot_table_tabulate fillna_tabulate)
qed

text \<open>
  The guard makes every division defined: no row and no table is left without its
  normalised form, whatever the ratings are.
\<close>

lemma handle_zeros_in_scale_nonzero: "handle_zeros_in_scale s \<noteq> 0"
  by (simp add: handle_zeros_in_scale_def)

lemma np_divide_guarded:
  "np_divide x (handle_zeros_in_scale s) = Some (x / handle_zeros_in_scale s)"
  by (simp add: np_divide_def handle_zeros_in_scale_nonzero)

lemma those_map_Some: "those (map (\<lambda>x. Some (f x)) xs) = Some (map f xs)"
  by (induction xs) simp_all

lemma normalize_row_eq: "normalize_row xs = Some (unit_row xs)"
  by (simp add: normalize_row_def unit_row_def np_divide_guarded those_map_Some)

lemma normalize_eq: "normalize X = Some (map unit_row X)"
proof -
  have m: "map normalize_row X = map (\<lambda>xs. Some (unit_row xs)) X"
    by (rule map_cong) (simp_all add: normalize_row_eq)
  show ?thesis
    unfolding normalize_def m by (rule those_map_Some)
qed

lemma cosine_similarity_tabulate:
  "cosine_similarity (tabulate idx cols f) =
     (if idx = [] \<or> cols = [] then Inl ValueError
      else Inr (map (\<lambda>a. map (\<lambda>b. dot (unit_row (map (f a) cols)) (unit_row (map (f b) cols))) idx) idx))"
  by (auto simp: cosine_similarity_def tabulate_def normalize_eq comp_def)

text \<open>
  The whole of \<open>load_data\<close>: it fails exactly when the merged table is empty, and
  otherwise its cell at titles (a, b) is the cosine score of their rating vectors.
\<close>

lemma load_data_eq:
  "load_data ratings movies =
     (if merge ratings movies = [] then Inl ValueError
      else Inr (tabulate (titles (merge ratings movies)) (titles (merge ratings movies))
                  (sim (merge ratings movies))))"
proof -
  define data where "data = merge ratings movies"
  have c: "columns (pivot_table data) = titles data"
    by (simp add: pivot_table_tabulate)
  have t: "T (fillna (pivot_table data) 0) = tabulate (titles data) (users data) (\<lambda>b a. rating_cell data a b)"
    by (simp add: filled_tabulate T_tabulate)
  show ?thesis
    unfolding load_data_def Let_def data_def [symmetric] t c cosine_similarity_tabulate
    by (simp add: tabulate_def sim_def item_vector_def)
qed

lemma load_data_app_eq:
  "load_data_app ratings movies =
     (case load_data ratings movies of Inl e \<Rightarrow> Inl e | Inr df \<Rightarrow> Inr (df, merge ratings movies))"
  by (simp add: load_data_app_def load_data_def Let_def split: sum.splits)

lemma load_data_InrD:
  assumes "load_data ratings movies = Inr df"
  shows "merge ratings movies \<noteq> []"
    and "df = tabulate (titles (merge ratings movies)) (titles (merge ratings movies)) (sim (merge ratings movies))"
  using assms by (auto simp: load_data_eq split: if_splits)

lemma loc_load_data:
  assumes "load_data ratings movies = Inr df"
  shows "loc df a b = (if a \<in> set (index df) \<and> b \<in> set (index df) then Some (sim (merge ratings movies) a b) else None)"
  using load_data_InrD(2) [OF assms] by (simp add: loc_tabulate)

lemma similarity_matrix_load_data:
  assumes "load_data ratings movies = Inr df"
  shows "similarity_matrix df"
  unfolding load_data_InrD(2) [OF assms]
  by (simp add: similarity_matrix_def) (simp add: tabulate_def)

lemma distinct_count_list: "distinct xs \<Longrightarrow> x \<in> set xs \<Longrightarrow> count_list xs x = 1"
  by (induction xs) auto

lemma merge_mem:
  assumes "r \<in> set ratings" and "m \<in> set movies" and "m_movie_id m = r_movie_id r"
  shows "\<lparr>user_id = r_user_id r, movie_id = r_movie_id r, rating = r_rating r,
           timestamp = r_timestamp r, title = m_title m\<rparr> \<in> set (merge ratings movies)"
  using assms by (auto simp: merge_def)

lemma group_ratings_nonempty:
  assumes "group_ratings data u t \<noteq> []"
  shows "u \<in> set (users data)" and "t \<in> set (titles data)"
proof -
  from assms obtain d where "d \<in> set data" "user_id d = u" "title d = t"
    by (auto simp: group_ratings_def filter_empty_conv)
  then show "u \<in> set (users data)" and "t \<in> set (titles data)" by auto
qed

lemma loc_user_movie_matrix:
  "loc (user_movie_matrix ratings movies) u t =
     (if u \<in> set (users (merge ratings movies)) \<and> t \<in> set (titles (merge ratings movies))
      then Some (if group_ratings (merge ratings movies) u t = [] then None
                 else Some (mean (group_ratings (merge ratings movies) u t)))
      else None)"
  unfolding user_movie_matrix_def pivot_table_tabulate loc_tabulate ..

lemma loc_user_movie_matrix_filled:
  "loc (user_movie_matrix_filled ratings movies) u t =
     (if u \<in> set (users (merge ratings movies)) \<and> t \<in> set (titles (merge ratings movies))
      then Some (rating_cell (merge ratings movies) u t) else None)"
  unfolding user_movie_matrix_filled_def user_movie_matrix_def filled_tabulate loc_tabulate ..

text \<open>A pair of labels without observation is NaN in the pivot and 0 after the fill.\<close>

lemma absent_cell_zero_filled:
  assumes "group_ratings (merge ratings movies) u t = []"
    and "u \<in> set (index (user_movie_matrix ratings movies))"
    and "t \<in> set (columns (user_movie_matrix ratings movies))"
  shows "loc (user_movie_matrix ratings movies) u t = Some None"
    and "loc (user_movie_matrix_filled ratings movies) u t = Some 0"
proof -
  from assms(2,3) have m: "u \<in> set (users (merge ratings movies))" "t \<in> set (titles (merge ratings movies))"
    by (simp_all add: user_movie_matrix_def pivot_table_tabulate)
  show "loc (user_movie_matrix ratings movies) u t = Some None"
    unfolding loc_user_movie_matrix using m assms(1) by simp
  show "loc (user_movie_matrix_filled ratings movies) u t = Some 0"
    unfolding loc_user_movie_matrix_filled using m assms(1) by (simp add: rating_cell_def)
qed

section \<open>Dot products and norms\<close>

lemma dot_commute: "dot xs ys = dot ys xs"
proof (induction xs arbitrary: ys)
  case Nil
  then show ?case by (simp add: dot_def)
next
  case (Cons x xs)
  then show ?case by (cases ys) (simp_all add: dot_def mult.commute)
qed





lemma sim_commute: "sim data a b = sim data b a"
  by (simp add: sim_def dot_commute)

section \<open>Sorting and slicing\<close>

lemma length_sort_values_desc [simp]: "length (sort_values_desc s) = length s"
  by (simp add: sort_values_desc_def)

lemma iloc_slice_tail:
  assumes "0 \<le> n"
  shows "iloc_slice 1 (n + 1) xs = take (nat n) (drop 1 xs)"
proof (cases xs)
  case Nil
  then show ?thesis by (simp add: iloc_slice_def)
next
  case (Cons x ys)
  have "min (nat (n + 1)) (Suc (length ys)) - Suc 0 = min (nat n) (length ys)"
    using assms by (simp add: min_def nat_add_distrib)
  moreover have "take (min (nat n) (length ys)) ys = take (nat n) ys"
    by (simp add: min_def)
  ultimately show ?thesis
    using assms Cons by (simp add: iloc_slice_def slice_bound_def Let_def)
qed

lemma sort_values_desc_head:
  assumes "p \<in> set s" and "\<forall>e\<in>set s. e \<noteq> p \<longrightarrow> snd e < snd p"
  shows "\<exists>rest. sort_values_desc s = p # rest"
proof -
  define S where "S = sort_key snd (rev s)"
  have set_S: "set S = set s" by (simp add: S_def)
  have sorted_S: "sorted (map snd S)" by (simp add: S_def)
  from assms(1) set_S have ne: "S \<noteq> []" by auto
  then obtain ys y where S: "S = ys @ [y]" by (metis rev_exhaust)
  have "y = p"
  proof (rule ccontr)
    assume "y \<noteq> p"
    moreover have "y \<in> set s" using S set_S by auto
    ultimately have lt: "snd y < snd p" using assms(2) by blast
    from \<open>y \<noteq> p\<close> assms(1) set_S S have "p \<in> set ys" by auto
    then have "snd p \<le> snd y"
      using sorted_S unfolding S by (auto simp: sorted_append)
    with lt show False by simp
  qed
  then show ?thesis
    by (simp add: sort_values_desc_def S_def [symmetric] S)
qed

lemma distinct_fst_sort_values_desc:
  assumes "distinct (map fst s)"
  shows "distinct (map fst (sort_values_desc s))"
  using assms by (simp add: distinct_map sort_values_desc_def)

section \<open>Evaluation of the concrete datasets\<close>

lemmas pipeline_defs = load_data_def merge_def pivot_table_def fillna_def T_def
  cosine_similarity_def group_ratings_def mean_def normalize_def normalize_row_def
  np_divide_def row_norm_def handle_zeros_in_scale_def dot_def Let_def

lemmas query_defs = recommend_movie_def recommend_movie_app_def getitem_def
  sort_values_desc_def iloc_slice_def slice_bound_def sort_key_def

lemma sqrt_9: "sqrt 9 = 3"
  by (rule real_sqrt_unique) simp_all

lemma score_AB_bounds: "0 < 5 / sqrt 41" "5 / sqrt 41 < 1"
proof -
  show "0 < 5 / sqrt 41" by simp
  have "sqrt 25 < sqrt 41" by (simp only: real_sqrt_less_iff)
  moreover have "sqrt 25 = 5" by (rule real_sqrt_unique) simp_all
  ultimately have "5 < sqrt 41" by simp
  then show "5 / sqrt 41 < 1" by simp
qed

lemma scenario_load: "load_data scenario_ratings scenario_movies = Inr scenario_similarity"
  by (simp add: pipeline_defs scenario_ratings_def scenario_movies_def scenario_similarity_def sqrt_9)


section \<open>Properties of \<open>recommend_movie\<close>\<close>

text \<open>
  Both scripts leave the query title out by dropping the first entry of the sorted
  column. That entry is the query whenever its own score is strictly greater than every
  other score of the column.
\<close>

lemma recommend_movie_excludes_strict_maximum:
  assumes "getitem df movie_name = Inr col"
    and "distinct (map fst col)"
    and "(movie_name, y) \<in> set col"
    and "\<forall>e\<in>set col. e \<noteq> (movie_name, y) \<longrightarrow> snd e < y"
    and "0 \<le> n"
  shows "\<exists>r. recommend_movie df movie_name n = Inr r \<and> movie_name \<notin> set r"
proof -
  from sort_values_desc_head [OF assms(3)] assms(4)
  obtain rest where s: "sort_values_desc col = (movie_name, y) # rest" by auto
  from distinct_fst_sort_values_desc [OF assms(2)]
  have "movie_name \<notin> set (map fst rest)" by (simp add: s)
  then have "movie_name \<notin> set (map fst (take (nat n) rest))"
    by (auto dest: in_set_takeD)
  then show ?thesis
    by (simp add: recommend_movie_def assms(1) s iloc_slice_tail [OF assms(5)] Let_def)
qed

text \<open>
  Claim C1: for every similarity matrix, every title of its index and every n \<open>\<ge>\<close> 1, the
  result of \<open>recommend_movie\<close> never contains the query title.

  The code does not keep this. When another title scores as high as the query itself,
  the entry that is dropped is not the query. For the dataset in which one user gives
  the movies A and B the same rating, every score is 1, the column of B is sorted as
  A, B, and the query B is returned as its own recommendation, by both scripts. (The
  column of A holds the same values, so whichever way a sort orders equal scores, one of
  the two queries returns itself.)
\<close>

theorem recommend_movie_returns_query:
  "load_data tie_ratings tie_movies = Inr tie_similarity
   \<and> recommend_movie tie_similarity ''B'' 5 = Inr [''B'']
   \<and> recommend_movie_app tie_similarity ''B'' 5 = Inr (Series [(''B'', 1)])"
  by (simp add: pipeline_defs query_defs tie_ratings_def tie_movies_def tie_similarity_def)

text \<open>
  Claim C2: for a query title that is not in the index, \<open>recommend_movie\<close> signals a
  NotFound condition, not an empty successful result.

  This holds for \<^verbatim>\<open>movie_recommender.py\<close> only. There the column lookup raises KeyError.
  \<^verbatim>\<open>movie_recommender_app.py\<close> tests the title first and returns the empty list, a
  successful result. As amended: for every table and every title that is not among its
  columns, the first script fails with KeyError and the second returns the empty list.
\<close>

theorem recommend_movie_unknown_title:
  assumes "movie_name \<notin> set (columns df)"
  shows "recommend_movie df movie_name n = Inl KeyError
       \<and> recommend_movie_app df movie_name n = Inr (PyList [])"
  using assms by (simp add: recommend_movie_def recommend_movie_app_def getitem_unknown)

theorem recommend_movie_unknown_title_witness:
  "''NoSuchItem'' \<notin> set (columns tie_similarity)
   \<and> recommend_movie tie_similarity ''NoSuchItem'' 5 = Inl KeyError
   \<and> recommend_movie_app tie_similarity ''NoSuchItem'' 5 = Inr (PyList [])"
proof -
  have h: "''NoSuchItem'' \<notin> set (columns tie_similarity)"
    by (simp add: tie_similarity_def)
  show ?thesis
    using h recommend_movie_unknown_title [OF h, of 5] by simp
qed

text \<open>
  The claim as stated fails for the second script: the unknown title
  \<^verbatim>\<open>NoSuchItem\<close> yields the empty list, not an error.
\<close>

theorem recommend_movie_app_unknown_title_empty:
  "''NoSuchItem'' \<notin> set (index scenario_similarity)
   \<and> recommend_movie_app scenario_similarity ''NoSuchItem'' 5 = Inr (PyList [])"
  by (simp add: recommend_movie_app_def scenario_similarity_def)

text \<open>
  Claim C5: for a similarity matrix with k titles, a title of it and n \<open>\<ge>\<close> 1,
  \<open>recommend_movie\<close> raises no error and returns min(n, k - 1) entries: at most n, and
  fewer only when fewer than n other titles exist. This holds for both scripts.
\<close>

theorem recommend_movie_length:
  assumes "similarity_matrix df" and "movie_name \<in> set (columns df)" and "1 \<le> n"
  shows "(\<exists>r. recommend_movie df movie_name n = Inr r
             \<and> length r = min (nat n) (length (columns df) - 1))
       \<and> (\<exists>s. recommend_movie_app df movie_name n = Inr (Series s)
             \<and> length s = min (nat n) (length (columns df) - 1))"
proof -
  from getitem_known [OF assms(2)] obtain j
    where g: "getitem df movie_name = Inr (zip (index df) (map (\<lambda>row. row ! j) (cells df)))" ..
  have len: "length (zip (index df) (map (\<lambda>row. row ! j) (cells df))) = length (columns df)"
    using assms(1) by (simp add: similarity_matrix_def)
  from assms(3) have n: "0 \<le> n" by simp
  show ?thesis
    using assms(2) len
    by (simp add: recommend_movie_def recommend_movie_app_def g Let_def iloc_slice_tail [OF n])
qed

theorem recommend_movie_length_witness:
  "similarity_matrix scenario_similarity \<and> ''A'' \<in> set (columns scenario_similarity) \<and> (1::int) \<le> 2
   \<and> (\<exists>r. recommend_movie scenario_similarity ''A'' 2 = Inr r \<and> length r = 2)
   \<and> (\<exists>s. recommend_movie_app scenario_similarity ''A'' 2 = Inr (Series s) \<and> length s = 2)"
proof -
  have h1: "similarity_matrix scenario_similarity"
    by (simp add: similarity_matrix_def scenario_similarity_def)
  have h2: "''A'' \<in> set (columns scenario_similarity)"
    by (simp add: scenario_similarity_def)
  have h3: "(1::int) \<le> 2" by simp
  have k: "length (columns scenario_similarity) = 3"
    by (simp add: scenario_similarity_def)
  show ?thesis
    using h1 h2 recommend_movie_length [OF h1 h2 h3] by (simp add: k)
qed

text \<open>
  Claim C10: for a title of the table and \<^verbatim>\<open>num_recommendations\<close> = 5 (indeed for every
  count), the list of titles that \<^verbatim>\<open>movie_recommender.py\<close> returns is the index of the
  Series that \<^verbatim>\<open>movie_recommender_app.py\<close> returns, in the same order.
\<close>

theorem recommend_movie_implementations_agree:
  assumes "movie_name \<in> set (columns df)"
  shows "\<exists>s. recommend_movie_app df movie_name n = Inr (Series s)
           \<and> recommend_movie df movie_name n = Inr (map fst s)"
proof -
  from getitem_known [OF assms] obtain j
    where g: "getitem df movie_name = Inr (zip (index df) (map (\<lambda>row. row ! j) (cells df)))" ..
  show ?thesis
    using assms by (simp add: recommend_movie_def recommend_movie_app_def g Let_def)
qed

theorem recommend_movie_implementations_agree_witness:
  "''A'' \<in> set (columns scenario_similarity)
   \<and> (\<exists>s. recommend_movie_app scenario_similarity ''A'' 5 = Inr (Series s)
          \<and> recommend_movie scenario_similarity ''A'' 5 = Inr (map fst s))"
proof -
  have h: "''A'' \<in> set (columns scenario_similarity)"
    by (simp add: scenario_similarity_def)
  show ?thesis
    using h recommend_movie_implementations_agree [OF h, of 5] by simp
qed

section \<open>Properties of \<open>load_data\<close>\<close>

text \<open>
  Claim C3: the similarity matrix that \<open>load_data\<close> produces is symmetric: for every
  pair of titles a, b of its index the entry at (a, b) exists and equals the entry at
  (b, a). This holds for the table of either script.
\<close>

theorem load_data_symmetric:
  assumes "load_data ratings movies = Inr df \<or> load_data_app ratings movies = Inr (df, data)"
    and "a \<in> set (index df)" and "b \<in> set (index df)"
  shows "\<exists>v. loc df a b = Some v \<and> loc df b a = Some v"
proof -
  from assms(1) have ld: "load_data ratings movies = Inr df"
    by (auto simp: load_data_app_eq split: sum.splits)
  show ?thesis using assms(2,3)
    by (simp add: loc_load_data [OF ld] sim_commute)
qed

theorem load_data_symmetric_witness:
  "load_data scenario_ratings scenario_movies = Inr scenario_similarity
   \<and> ''A'' \<in> set (index scenario_similarity) \<and> ''B'' \<in> set (index scenario_similarity)
   \<and> (\<exists>v. loc scenario_similarity ''A'' ''B'' = Some v \<and> loc scenario_similarity ''B'' ''A'' = Some v)"
proof -
  have h1: "load_data scenario_ratings scenario_movies = Inr scenario_similarity
            \<or> load_data_app scenario_ratings scenario_movies = Inr (scenario_similarity, [])"
    using scenario_load by simp
  have h2: "''A'' \<in> set (index scenario_similarity)" and h3: "''B'' \<in> set (index scenario_similarity)"
    by (simp_all add: scenario_similarity_def)
  show ?thesis
    using scenario_load h2 h3 load_data_symmetric [OF h1 h2 h3] by simp
qed



text \<open>
  Claim C6: when there is no rating observation, the pipeline produces an empty
  similarity matrix (0 rows, 0 columns) and does not fail.

  The code fails. Merge and pivot do produce an empty rating matrix, but the cosine
  similarity step rejects an array without samples by a ValueError, which neither script
  handles. As amended: for no rating observation the rating matrix is empty (0 rows, 0
  columns) and \<open>load_data\<close> fails with ValueError, in both scripts.
\<close>

theorem load_data_empty:
  "user_movie_matrix [] movies = \<lparr>index = [], columns = [], cells = []\<rparr>
   \<and> load_data [] movies = Inl ValueError
   \<and> load_data_app [] movies = Inl ValueError"
  by (simp add: load_data_app_eq load_data_eq user_movie_matrix_def merge_def pivot_table_def)

text \<open>The claim as stated fails: for no observation the outcome is an error, not a table.\<close>

theorem load_data_empty_fails:
  "load_data [] scenario_movies \<noteq> Inr \<lparr>index = [], columns = [], cells = []\<rparr>
   \<and> load_data [] scenario_movies = Inl ValueError
   \<and> load_data_app [] scenario_movies = Inl ValueError"
  by (simp add: load_data_app_def pipeline_defs)

text \<open>
  Claim C7: for three users rating three items (user 1: A=5, B=3, C=0; user 2: A=4, B=0,
  C=0; user 3: A=0, B=0, C=5) the similarity of A and B, which is 5 / sqrt 41, exceeds
  the similarity of A and C, which is 0, and \<open>recommend_movie\<close> for A and 2 returns B, C
  in that order. The table is the same whether the zero ratings are observations or
  pairs without observation.
\<close>

theorem scenario_recommendation:
  "load_data scenario_ratings scenario_movies = Inr scenario_similarity
   \<and> load_data scenario_ratings_observed scenario_movies = Inr scenario_similarity
   \<and> loc scenario_similarity ''A'' ''B'' = Some (5 / sqrt 41)
   \<and> loc scenario_similarity ''A'' ''C'' = Some 0
   \<and> (0::real) < 5 / sqrt 41
   \<and> recommend_movie scenario_similarity ''A'' 2 = Inr [''B'', ''C'']
   \<and> recommend_movie_app scenario_similarity ''A'' 2 = Inr (Series [(''B'', 5 / sqrt 41), (''C'', 0)])"
proof -
  have le: "\<not> 1 \<le> 5 / sqrt 41" "\<not> 5 / sqrt 41 \<le> 0" "5 / sqrt 41 \<le> 1" "0 \<le> 5 / sqrt 41"
    using score_AB_bounds by simp_all
  have l: "loc scenario_similarity ''A'' ''B'' = Some (5 / sqrt 41)"
    "loc scenario_similarity ''A'' ''C'' = Some 0"
    by (simp_all add: loc_def scenario_similarity_def)
  have s: "sort_values_desc [(''A'', 1), (''B'', 5 / sqrt 41), (''C'', 0)]
           = [(''A'', 1), (''B'', 5 / sqrt 41), (''C'', 0)]"
    using le by (simp add: sort_values_desc_def sort_key_def)
  have g: "getitem scenario_similarity ''A'' = Inr [(''A'', 1), (''B'', 5 / sqrt 41), (''C'', 0)]"
    by (simp add: getitem_def scenario_similarity_def)
  have r: "recommend_movie scenario_similarity ''A'' 2 = Inr [''B'', ''C'']"
    by (simp add: recommend_movie_def g s iloc_slice_def slice_bound_def)
  have c: "columns scenario_similarity = [''A'', ''B'', ''C'']"
    by (simp add: scenario_similarity_def)
  have ra: "recommend_movie_app scenario_similarity ''A'' 2 = Inr (Series [(''B'', 5 / sqrt 41), (''C'', 0)])"
    by (simp add: recommend_movie_app_def g s c iloc_slice_def slice_bound_def)
  have o: "load_data scenario_ratings_observed scenario_movies = Inr scenario_similarity"
    by (simp add: pipeline_defs scenario_ratings_observed_def scenario_movies_def
        scenario_similarity_def sqrt_9)
  show ?thesis
    using scenario_load o l score_AB_bounds(1) r ra by simp
qed

text \<open>
  Claim C8: when rating observations share a (user_id, title) pair, the cell of that pair
  in the rating matrix is the arithmetic mean of their ratings, the sum divided by the
  count; the mean is taken by the pivot, before absent cells are filled with zero. The
  statement covers every pair with at least one observation, so in particular those with
  two or more.
\<close>

theorem pivot_duplicates_mean:
  assumes "g = group_ratings (merge ratings movies) u t" and "g \<noteq> []"
  shows "loc (user_movie_matrix ratings movies) u t = Some (Some (sum_list g / real (length g)))
       \<and> loc (user_movie_matrix_filled ratings movies) u t = Some (sum_list g / real (length g))"
  using assms group_ratings_nonempty [of "merge ratings movies" u t]
  by (simp add: loc_user_movie_matrix loc_user_movie_matrix_filled rating_cell_def mean_def)

theorem pivot_duplicates_mean_witness:
  "group_ratings (merge duplicate_ratings tie_movies) 1 ''A'' = [2, 4]
   \<and> loc (user_movie_matrix duplicate_ratings tie_movies) 1 ''A'' = Some (Some 3)
   \<and> loc (user_movie_matrix_filled duplicate_ratings tie_movies) 1 ''A'' = Some 3"
proof -
  have h1: "[2, 4] = group_ratings (merge duplicate_ratings tie_movies) 1 ''A''"
    by (simp add: group_ratings_def merge_def duplicate_ratings_def tie_movies_def)
  have h2: "[2, 4 :: real] \<noteq> []" by simp
  show ?thesis
    using h1 [symmetric] pivot_duplicates_mean [OF h1 h2] by simp
qed

text \<open>
  Claim C9: when two distinct movie ids with rating observations carry the same title,
  \<open>load_data\<close> raises no error, the title is one column of the rating matrix and one
  entry of the index and of the columns of the similarity matrix, and the ratings of both
  movies enter the groups of that one column, whose cell for a user is the mean of the
  whole group (0 when the group is empty).
\<close>

theorem duplicate_titles_merged:
  assumes "r1 \<in> set ratings" and "r2 \<in> set ratings"
    and "m1 \<in> set movies" and "m2 \<in> set movies"
    and "m_movie_id m1 = r_movie_id r1" and "m_movie_id m2 = r_movie_id r2"
    and "m_movie_id m1 \<noteq> m_movie_id m2"
    and "m_title m1 = t" and "m_title m2 = t"
  shows "\<exists>df. load_data ratings movies = Inr df
           \<and> count_list (index df) t = 1 \<and> count_list (columns df) t = 1
           \<and> count_list (columns (user_movie_matrix ratings movies)) t = 1
           \<and> r_rating r1 \<in> set (group_ratings (merge ratings movies) (r_user_id r1) t)
           \<and> r_rating r2 \<in> set (group_ratings (merge ratings movies) (r_user_id r2) t)
           \<and> (\<forall>u\<in>set (index (user_movie_matrix ratings movies)).
                 loc (user_movie_matrix_filled ratings movies) u t =
                   Some (if group_ratings (merge ratings movies) u t = [] then 0
                         else mean (group_ratings (merge ratings movies) u t)))"
proof -
  define d where "d = merge ratings movies"
  let ?d1 = "\<lparr>user_id = r_user_id r1, movie_id = r_movie_id r1, rating = r_rating r1,
              timestamp = r_timestamp r1, title = m_title m1\<rparr>"
  let ?d2 = "\<lparr>user_id = r_user_id r2, movie_id = r_movie_id r2, rating = r_rating r2,
              timestamp = r_timestamp r2, title = m_title m2\<rparr>"
  have d1: "?d1 \<in> set d" and d2: "?d2 \<in> set d"
    unfolding d_def
    using merge_mem [OF assms(1) assms(3) assms(5)] merge_mem [OF assms(2) assms(4) assms(6)]
    by simp_all
  then have ne: "d \<noteq> []" by auto
  have t: "t \<in> set (titles d)"
    using d1 assms(8) by (force simp: image_iff)
  have ld: "load_data ratings movies = Inr (tabulate (titles d) (titles d) (sim d))"
    using ne unfolding d_def by (simp add: load_data_eq)
  have umm: "user_movie_matrix ratings movies = tabulate (users d) (titles d)
      (\<lambda>u t. if group_ratings d u t = [] then None else Some (mean (group_ratings d u t)))"
    unfolding d_def by (simp add: user_movie_matrix_def pivot_table_tabulate)
  have umf: "user_movie_matrix_filled ratings movies = tabulate (users d) (titles d) (rating_cell d)"
    unfolding d_def by (simp add: user_movie_matrix_filled_def user_movie_matrix_def filled_tabulate)
  have c: "count_list (titles d) t = 1"
    by (rule distinct_count_list [OF distinct_titles t])
  have g1: "r_rating r1 \<in> set (group_ratings d (r_user_id r1) t)"
    using d1 assms(8) by (force simp: group_ratings_def image_iff)
  have g2: "r_rating r2 \<in> set (group_ratings d (r_user_id r2) t)"
    using d2 assms(9) by (force simp: group_ratings_def image_iff)
  have cellv: "\<forall>u\<in>set (users d). loc (tabulate (users d) (titles d) (rating_cell d)) u t =
      Some (if group_ratings d u t = [] then 0 else mean (group_ratings d u t))"
    using t by (simp add: loc_tabulate rating_cell_def)
  show ?thesis
    unfolding d_def [symmetric] ld umm umf
    using c g1 g2 cellv by simp
qed

theorem duplicate_titles_merged_witness:
  "\<exists>df. load_data duplicate_ratings same_title_movies = Inr df
     \<and> index df = [''A''] \<and> columns df = [''A'']
     \<and> count_list (index df) ''A'' = 1 \<and> count_list (columns df) ''A'' = 1
     \<and> loc (user_movie_matrix_filled duplicate_ratings same_title_movies) 2 ''A'' = Some 5"
proof -
  let ?r1 = "\<lparr>r_user_id = 1, r_movie_id = 1, r_rating = 2, r_timestamp = 0\<rparr>"
  let ?r2 = "\<lparr>r_user_id = 2, r_movie_id = 2, r_rating = 5, r_timestamp = 2\<rparr>"
  let ?m1 = "\<lparr>m_movie_id = 1, m_title = ''A''\<rparr>"
  let ?m2 = "\<lparr>m_movie_id = 2, m_title = ''A''\<rparr>"
  have r: "?r1 \<in> set duplicate_ratings" "?r2 \<in> set duplicate_ratings"
    by (simp_all add: duplicate_ratings_def)
  have m: "?m1 \<in> set same_title_movies" "?m2 \<in> set same_title_movies"
    by (simp_all add: same_title_movies_def)
  have i: "m_movie_id ?m1 = r_movie_id ?r1" "m_movie_id ?m2 = r_movie_id ?r2"
    "m_movie_id ?m1 \<noteq> m_movie_id ?m2" "m_title ?m1 = ''A''" "m_title ?m2 = ''A''"
    by simp_all
  have ix: "index (user_movie_matrix duplicate_ratings same_title_movies) = [1, 2]"
    by (simp add: user_movie_matrix_def pivot_table_def merge_def duplicate_ratings_def
        same_title_movies_def)
  have g: "group_ratings (merge duplicate_ratings same_title_movies) 2 ''A'' = [5]"
    by (simp add: group_ratings_def merge_def duplicate_ratings_def same_title_movies_def)
  have c: "columns (user_movie_matrix duplicate_ratings same_title_movies) = [''A'']"
    by (simp add: user_movie_matrix_def pivot_table_def merge_def duplicate_ratings_def
        same_title_movies_def)
  from duplicate_titles_merged [OF r m i]
  obtain df where df: "load_data duplicate_ratings same_title_movies = Inr df"
    "count_list (index df) ''A'' = 1" "count_list (columns df) ''A'' = 1"
    "\<forall>u\<in>set (index (user_movie_matrix duplicate_ratings same_title_movies)).
        loc (user_movie_matrix_filled duplicate_ratings same_title_movies) u ''A'' =
          Some (if group_ratings (merge duplicate_ratings same_title_movies) u ''A'' = [] then 0
                else mean (group_ratings (merge duplicate_ratings same_title_movies) u ''A''))"
    by blast
  from df(1) have "index df = [''A'']" "columns df = [''A'']"
    using c by (auto simp: load_data_def user_movie_matrix_def Let_def split: sum.splits)
  moreover from df(4) have "loc (user_movie_matrix_filled duplicate_ratings same_title_movies) 2 ''A'' = Some 5"
    by (simp add: ix g mean_def)
  ultimately show ?thesis using df(1,2,3) by simp
qed

end
